theory Spec2Isabelle
  imports Complex_Main "HOL-Library.Char_ord" "HOL-Library.List_Lexorder"
begin

chapter \<open>The collection-and-delivery engine of claude-code-leaderboard\<close>

text \<open>
  A shallow embedding of the hook scripts \<^verbatim>\<open>count_tokens_v4.js\<close> and
  \<^verbatim>\<open>count_tokens_v3.js\<close> and of the shared module \<^verbatim>\<open>shared/data-collector.js\<close>.
  Asynchronous functions are modelled sequentially (the engine awaits every call); an
  exception is a value of type \<open>exn\<close> on the left of a sum; files are fields of a record
  that is passed through the run; what the operating system, the network and the clock
  decide is read from explicit parameters.
\<close>

section \<open>Model\<close>

subsection \<open>JavaScript values\<close>

text \<open>
  The values \<^verbatim>\<open>JSON.parse\<close> can return. A property that is absent reads as
  \<^verbatim>\<open>undefined\<close>, modelled by \<open>None\<close> in a \<open>json option\<close>. \<open>JObj\<close> lists the
  own properties of an object, each key once. Numbers are rationals: the code only asks
  whether a value is a number and whether it is zero.
\<close>

datatype json =
    JNull
  | JBool bool
  | JNum rat
  | JStr string
  | JArr "json list"
  | JObj "(string \<times> json) list"

datatype exn = TypeError | SyntaxError | IOError | EEXIST

text \<open>Property access \<^verbatim>\<open>v?.k\<close> for the property names the engine reads (none of them
  is defined on a prototype): only an object has them.\<close>

fun prop_of :: "json option \<Rightarrow> string \<Rightarrow> json option" where
  "prop_of (Some (JObj kvs)) k = map_of kvs k"
| "prop_of _ k = None"

text \<open>JavaScript truthiness, as tested by \<^verbatim>\<open>!v\<close> and \<^verbatim>\<open>v || d\<close>.\<close>

fun truthy :: "json option \<Rightarrow> bool" where
  "truthy None = False"
| "truthy (Some JNull) = False"
| "truthy (Some (JBool b)) = b"
| "truthy (Some (JNum n)) = (n \<noteq> 0)"
| "truthy (Some (JStr s)) = (s \<noteq> [])"
| "truthy (Some (JArr _)) = True"
| "truthy (Some (JObj _)) = True"

text \<open>\<^verbatim>\<open>typeof v === 'number'\<close>\<close>

fun is_number :: "json option \<Rightarrow> bool" where
  "is_number (Some (JNum _)) = True"
| "is_number _ = False"

text \<open>\<^verbatim>\<open>v || d\<close>\<close>

definition or_else :: "json option \<Rightarrow> json \<Rightarrow> json" where
  "or_else v d = (case v of None \<Rightarrow> d | Some x \<Rightarrow> if truthy v then x else d)"

text \<open>
  What the engine takes from the JavaScript runtime: \<^verbatim>\<open>JSON.parse\<close> (\<open>None\<close> when it
  throws a SyntaxError), the string conversion of a template literal on a value that is
  not a string (\<open>None\<close> when it throws a TypeError, as on an object whose own
  \<^verbatim>\<open>toString\<close> is not callable) and the SHA-256 digest in hexadecimal.
\<close>

record runtime =
  JSON_parse :: "string \<Rightarrow> json option"
  ToString :: "json \<Rightarrow> string option"
  sha256_hex :: "string \<Rightarrow> string"

definition is_space :: "char \<Rightarrow> bool" where
  "is_space c \<longleftrightarrow> c \<in> set [CHR '' '', CHR 0x09, CHR 0x0A, CHR 0x0B, CHR 0x0C, CHR 0x0D]"

text \<open>\<^verbatim>\<open>String.prototype.trim\<close> on the ASCII white space.\<close>

definition trim :: "string \<Rightarrow> string" where
  "trim s = rev (dropWhile is_space (rev (dropWhile is_space s)))"

text \<open>\<^verbatim>\<open>`${v}`\<close>: a string is itself, any other value is converted by the runtime.\<close>

fun template :: "runtime \<Rightarrow> json \<Rightarrow> string option" where
  "template rt (JStr s) = Some s"
| "template rt v = ToString rt v"

text \<open>\<^verbatim>\<open>`${v || ''}`\<close>\<close>

definition template_or_empty :: "runtime \<Rightarrow> json option \<Rightarrow> string option" where
  "template_or_empty rt v =
     (case v of None \<Rightarrow> Some [] | Some x \<Rightarrow> if truthy v then template rt x else Some [])"

subsection \<open>Record parser (\<^verbatim>\<open>parseUsageFromLine\<close>)\<close>

record entry =
  timestamp :: json
  tokens_input :: rat
  tokens_output :: rat
  tokens_cache_creation :: json
  tokens_cache_read :: json
  model :: json
  session_id :: json
  interaction_hash :: string

definition number_of :: "json option \<Rightarrow> rat" where
  "number_of v = (case v of Some (JNum n) \<Rightarrow> n | _ \<Rightarrow> 0)"

text \<open>The body of the \<^verbatim>\<open>try\<close> block after \<^verbatim>\<open>JSON.parse\<close> has returned \<open>data\<close>.
  A TypeError of the template literal is caught with the SyntaxError of
  \<^verbatim>\<open>JSON.parse\<close>: both return \<^verbatim>\<open>null\<close>.\<close>

definition usage_of_data :: "runtime \<Rightarrow> json \<Rightarrow> entry option" where
  "usage_of_data rt data =
     (let message = prop_of (Some data) ''message'';
          usage = prop_of message ''usage''
      in case prop_of (Some data) ''timestamp'' of
           None \<Rightarrow> None
         | Some ts \<Rightarrow>
             if \<not> truthy (Some ts) \<or> \<not> truthy usage then None
             else if \<not> is_number (prop_of usage ''input_tokens'') \<or>
                     \<not> is_number (prop_of usage ''output_tokens'') then None
             else
               (case (template rt ts,
                      template_or_empty rt (prop_of message ''id''),
                      template_or_empty rt (prop_of (Some data) ''requestId'')) of
                  (Some t, Some mid, Some rid) \<Rightarrow>
                    Some \<lparr> timestamp = ts,
                           tokens_input = number_of (prop_of usage ''input_tokens''),
                           tokens_output = number_of (prop_of usage ''output_tokens''),
                           tokens_cache_creation =
                             or_else (prop_of usage ''cache_creation_input_tokens'') (JNum 0),
                           tokens_cache_read =
                             or_else (prop_of usage ''cache_read_input_tokens'') (JNum 0),
                           model = or_else (prop_of message ''model'') (JStr ''unknown''),
                           session_id = or_else (prop_of (Some data) ''sessionId'') JNull,
                           interaction_hash = sha256_hex rt (t @ mid @ rid) \<rparr>
                | _ \<Rightarrow> None))"

definition parseUsageFromLine :: "runtime \<Rightarrow> string \<Rightarrow> entry option" where
  "parseUsageFromLine rt line =
     (case JSON_parse rt (trim line) of
        None \<Rightarrow> None
      | Some data \<Rightarrow> usage_of_data rt data)"

subsection \<open>Dedup index and incremental reader\<close>

text \<open>\<^verbatim>\<open>entry.timestamp.split('T')[0]\<close>: a TypeError when the timestamp is not a string.\<close>

fun day_key :: "json \<Rightarrow> exn + string" where
  "day_key (JStr s) = Inr (takeWhile (\<lambda>c. c \<noteq> CHR ''T'') s)"
| "day_key _ = Inl TypeError"

text \<open>The property names every plain object inherits from \<^verbatim>\<open>Object.prototype\<close>: indexing
  an object with one of them that is not an own key yields a value that is neither a Set
  nor an array.\<close>

definition inherited_name :: "string \<Rightarrow> bool" where
  "inherited_name k \<longleftrightarrow> k \<in> set [''constructor'', ''toString'', ''valueOf'', ''toLocaleString'',
     ''hasOwnProperty'', ''isPrototypeOf'', ''propertyIsEnumerable'', ''__proto__'',
     ''__defineGetter__'', ''__defineSetter__'', ''__lookupGetter__'', ''__lookupSetter__'']"

type_synonym recent_hashes = "string \<rightharpoonup> string list"
type_synonym hash_sets = "string \<rightharpoonup> string set"

definition buildHashSets :: "recent_hashes \<Rightarrow> hash_sets" where
  "buildHashSets recentHashes = (\<lambda>dayKey. map_option set (recentHashes dayKey))"

text \<open>\<^verbatim>\<open>hashSets[dayKey]?.has(hash)\<close>\<close>

definition has_hash :: "hash_sets \<Rightarrow> string \<Rightarrow> string \<Rightarrow> exn + bool" where
  "has_hash hashSets dayKey h =
     (case hashSets dayKey of
        Some hs \<Rightarrow> Inr (h \<in> hs)
      | None \<Rightarrow> if inherited_name dayKey then Inl TypeError else Inr False)"

record offset_entry =
  offset :: nat
  size_bytes :: nat
  mtime :: rat

type_synonym file_offsets = "string \<rightharpoonup> offset_entry"

text \<open>What the file system shows of one log file during a run: the result of \<^verbatim>\<open>stat\<close>
  (size and \<^verbatim>\<open>mtimeMs\<close>), and for a start offset the lines that \<^verbatim>\<open>readline\<close> delivers
  from \<^verbatim>\<open>createReadStream(filePath, {start})\<close>, followed by the error of the stream
  if it fails.\<close>

record file_obs =
  fstat :: "exn + (nat \<times> rat)"
  stream_lines :: "nat \<Rightarrow> string list \<times> exn option"

text \<open>The \<^verbatim>\<open>for await (const line of rl)\<close> loop. The result is the \<^verbatim>\<open>entries\<close> array
  (which keeps what was pushed before an exception) and the exception, if any.\<close>

fun scanLines :: "runtime \<Rightarrow> hash_sets \<Rightarrow> string list \<Rightarrow> entry list \<Rightarrow> entry list \<times> exn option" where
  "scanLines rt hashSets [] entries = (entries, None)"
| "scanLines rt hashSets (line # rest) entries =
     (if trim line = [] then scanLines rt hashSets rest entries
      else
        (case parseUsageFromLine rt line of
           None \<Rightarrow> scanLines rt hashSets rest entries
         | Some entry \<Rightarrow>
             (case day_key (timestamp entry) of
                Inl e \<Rightarrow> (entries, Some e)
              | Inr dayKey \<Rightarrow>
                  (case has_hash hashSets dayKey (interaction_hash entry) of
                     Inl e \<Rightarrow> (entries, Some e)
                   | Inr True \<Rightarrow> scanLines rt hashSets rest entries
                   | Inr False \<Rightarrow> scanLines rt hashSets rest (entries @ [entry])))))"

text \<open>\<^verbatim>\<open>readFileIncremental\<close> returns the entries and updates \<open>offsets\<close> in place; the
  model returns both, and as a third component the exception its \<^verbatim>\<open>catch\<close> block
  swallowed (\<open>None\<close> when the \<^verbatim>\<open>try\<close> block ran to its end).\<close>

definition readFileIncremental ::
  "runtime \<Rightarrow> string \<Rightarrow> file_obs \<Rightarrow> file_offsets \<Rightarrow> hash_sets \<Rightarrow>
   entry list \<times> file_offsets \<times> exn option" where
  "readFileIncremental rt filePath f offsets hashSets =
     (case fstat f of
        Inl e \<Rightarrow> ([], offsets, Some e)
      | Inr (currentSize, currentMtime) \<Rightarrow>
          let saved = offsets filePath in
          if (case saved of
                Some s \<Rightarrow> size_bytes s = currentSize \<and> mtime s = currentMtime
              | None \<Rightarrow> False)
          then ([], offsets, None)
          else
            let startOffset =
                  (case saved of
                     None \<Rightarrow> 0
                   | Some s \<Rightarrow> if currentSize < size_bytes s then 0 else offset s);
                updated = \<lparr> offset = currentSize, size_bytes = currentSize, mtime = currentMtime \<rparr>
            in if startOffset \<ge> currentSize then ([], offsets(filePath \<mapsto> updated), None)
               else
                 (case stream_lines f startOffset of
                    (lines, failure) \<Rightarrow>
                      (case scanLines rt hashSets lines [] of
                         (entries, Some e) \<Rightarrow> (entries, offsets, Some e)
                       | (entries, None) \<Rightarrow>
                           (case failure of
                              Some e \<Rightarrow> (entries, offsets, Some e)
                            | None \<Rightarrow> (entries, offsets(filePath \<mapsto> updated), None)))))"

subsection \<open>Scan state\<close>

text \<open>
  The state document. A field is \<open>None\<close> when the persisted object does not have it;
  a field that is present has the type the engine writes. The version is a string
  (\<open>VStr\<close>) or some other value that is not \<^verbatim>\<open>null\<close> (\<open>VOther\<close>: a number, a boolean,
  an array, an object).
\<close>

datatype version_val = VStr string | VOther

record scan_state =
  version :: "version_val option"
  lastCleanup :: "string option"
  lastRunTimestamp :: "int option"
  recentHashes :: "recent_hashes option"
  fileOffsets :: "file_offsets option"

text \<open>What is found at the path of the state file: nothing, a file that cannot be read
  or parsed into an object, or a state document.\<close>

datatype state_file = NoStateFile | CorruptStateFile | StateFile scan_state

text \<open>\<^verbatim>\<open>new Date().toISOString()\<close> is the parameter \<open>nowISO\<close>.\<close>

definition createDefaultState :: "string \<Rightarrow> scan_state" where
  "createDefaultState nowISO =
     \<lparr> version = Some (VStr ''4.0.0''),
       lastCleanup = Some nowISO,
       lastRunTimestamp = Some 0,
       recentHashes = Some Map.empty,
       fileOffsets = Some Map.empty \<rparr>"

definition is_digit :: "char \<Rightarrow> bool" where
  "is_digit c \<longleftrightarrow> CHR ''0'' \<le> c \<and> c \<le> CHR ''9''"

definition digits_value :: "string \<Rightarrow> nat" where
  "digits_value ds = foldl (\<lambda>n c. 10 * n + (of_char c - 48)) 0 ds"

text \<open>\<^verbatim>\<open>parseInt(s, 10)\<close>: leading white space, an optional sign, then the longest run of
  decimal digits; \<open>None\<close> is \<^verbatim>\<open>NaN\<close>.\<close>

definition parseInt :: "string \<Rightarrow> int option" where
  "parseInt s =
     (let t = dropWhile is_space s;
          negative = (t \<noteq> [] \<and> hd t = CHR ''-'');
          u = (if t \<noteq> [] \<and> (hd t = CHR ''-'' \<or> hd t = CHR ''+'') then tl t else t);
          ds = takeWhile is_digit u
      in if ds = [] then None
         else Some (if negative then - int (digits_value ds) else int (digits_value ds)))"

text \<open>\<^verbatim>\<open>state.version?.split('.')[0] || '0'\<close> for a version that is absent or a string.\<close>

definition major_text :: "version_val option \<Rightarrow> string" where
  "major_text v =
     (case v of
        Some (VStr s) \<Rightarrow>
          (if takeWhile (\<lambda>c. c \<noteq> CHR ''.'') s = [] then ''0''
           else takeWhile (\<lambda>c. c \<noteq> CHR ''.'') s)
      | _ \<Rightarrow> ''0'')"

text \<open>\<^verbatim>\<open>!state.version\<close>\<close>

definition version_missing :: "version_val option \<Rightarrow> bool" where
  "version_missing v = (case v of None \<Rightarrow> True | Some (VStr s) \<Rightarrow> s = [] | Some VOther \<Rightarrow> False)"

definition migrate :: "string \<Rightarrow> scan_state \<Rightarrow> scan_state" where
  "migrate nowISO state =
     state \<lparr> version := Some (VStr ''4.0.0''),
             fileOffsets := (case fileOffsets state of None \<Rightarrow> Some Map.empty | Some m \<Rightarrow> Some m),
             lastRunTimestamp :=
               (case lastRunTimestamp state of
                  None \<Rightarrow> Some 0
                | Some t \<Rightarrow> if t = 0 then Some 0 else Some t),
             recentHashes := (case recentHashes state of None \<Rightarrow> Some Map.empty | Some m \<Rightarrow> Some m),
             lastCleanup :=
               (case lastCleanup state of
                  None \<Rightarrow> Some nowISO
                | Some c \<Rightarrow> if c = [] then Some nowISO else Some c) \<rparr>"

text \<open>\<^verbatim>\<open>loadState\<close>. Calling \<^verbatim>\<open>split\<close> on a version that is not a string is a TypeError,
  caught by the \<^verbatim>\<open>catch\<close> block like a file that cannot be read or parsed.\<close>

definition loadState :: "string \<Rightarrow> state_file \<Rightarrow> scan_state" where
  "loadState nowISO file =
     (case file of
        NoStateFile \<Rightarrow> createDefaultState nowISO
      | CorruptStateFile \<Rightarrow> createDefaultState nowISO
      | StateFile state \<Rightarrow>
          (case version state of
             Some VOther \<Rightarrow> createDefaultState nowISO
           | v \<Rightarrow>
               let major = parseInt (major_text v) in
               if version_missing v \<or> (case major of None \<Rightarrow> False | Some m \<Rightarrow> m < 4)
               then migrate nowISO state
               else state))"

subsection \<open>\<^verbatim>\<open>updateStateHashes\<close>\<close>

definition RETENTION_DAYS :: nat where
  "RETENTION_DAYS = 30"

text \<open>The loop that pushes the fingerprint of every entry under its day key. Indexing
  \<^verbatim>\<open>recentHashes\<close> with an inherited name yields a function, which has no
  \<^verbatim>\<open>push\<close>.\<close>

fun push_hashes :: "recent_hashes \<Rightarrow> entry list \<Rightarrow> exn + recent_hashes" where
  "push_hashes m [] = Inr m"
| "push_hashes m (e # es) =
     (case day_key (timestamp e) of
        Inl x \<Rightarrow> Inl x
      | Inr dayKey \<Rightarrow>
          (case m dayKey of
             Some hs \<Rightarrow> push_hashes (m(dayKey \<mapsto> hs @ [interaction_hash e])) es
           | None \<Rightarrow>
               if inherited_name dayKey then Inl TypeError
               else push_hashes (m(dayKey \<mapsto> [interaction_hash e])) es))"

text \<open>The retention loop: \<^verbatim>\<open>if (dayKey < cutoffKey) delete state.recentHashes[dayKey]\<close>,
  a comparison of strings.\<close>

definition prune :: "string \<Rightarrow> recent_hashes \<Rightarrow> recent_hashes" where
  "prune cutoffKey m = (\<lambda>dayKey. if dayKey < cutoffKey then None else m dayKey)"

text \<open>\<open>cutoffKey\<close> is the date part of the ISO string of the current date set back by
  \<open>RETENTION_DAYS\<close> days, computed by the runtime's \<^verbatim>\<open>Date\<close>.\<close>

definition updateStateHashes :: "string \<Rightarrow> string \<Rightarrow> scan_state \<Rightarrow> entry list \<Rightarrow> exn + scan_state" where
  "updateStateHashes cutoffKey nowISO state entries =
     (case recentHashes state of
        None \<Rightarrow> if entries = [] then Inr (state \<lparr> lastCleanup := Some nowISO \<rparr>) else Inl TypeError
      | Some m \<Rightarrow>
          (case push_hashes m entries of
             Inl e \<Rightarrow> Inl e
           | Inr m' \<Rightarrow>
               Inr (state \<lparr> recentHashes := Some (prune cutoffKey m'),
                            lastCleanup := Some nowISO \<rparr>)))"

subsection \<open>\<^verbatim>\<open>collectNewUsageDataIncremental\<close>\<close>

text \<open>The inner loop over the files found under one projects directory.\<close>

fun readFiles ::
  "runtime \<Rightarrow> hash_sets \<Rightarrow> (string \<times> file_obs) list \<Rightarrow> file_offsets \<Rightarrow> entry list \<Rightarrow>
   entry list \<times> file_offsets" where
  "readFiles rt hashSets [] offsets allEntries = (allEntries, offsets)"
| "readFiles rt hashSets ((file, f) # rest) offsets allEntries =
     (case readFileIncremental rt file f offsets hashSets of
        (entries, offsets', _) \<Rightarrow> readFiles rt hashSets rest offsets' (allEntries @ entries))"

text \<open>The outer loop over the Claude paths; each is given by the log files that
  \<^verbatim>\<open>findJsonlFiles\<close> finds under it, with what the file system shows of each.\<close>

fun readPaths ::
  "runtime \<Rightarrow> hash_sets \<Rightarrow> (string \<times> file_obs) list list \<Rightarrow> file_offsets \<Rightarrow> entry list \<Rightarrow>
   entry list \<times> file_offsets" where
  "readPaths rt hashSets [] offsets allEntries = (allEntries, offsets)"
| "readPaths rt hashSets (jsonlFiles # rest) offsets allEntries =
     (case readFiles rt hashSets jsonlFiles offsets allEntries of
        (allEntries', offsets') \<Rightarrow> readPaths rt hashSets rest offsets' allEntries')"

definition collectNewUsageDataIncremental ::
  "runtime \<Rightarrow> (string \<times> file_obs) list list \<Rightarrow> scan_state \<Rightarrow> entry list \<times> scan_state" where
  "collectNewUsageDataIncremental rt claudePaths state =
     (if claudePaths = [] then ([], state)
      else
        let offsets0 = (case fileOffsets state of None \<Rightarrow> Map.empty | Some m \<Rightarrow> m);
            hashSets = buildHashSets (case recentHashes state of None \<Rightarrow> Map.empty | Some m \<Rightarrow> m)
        in case readPaths rt hashSets claudePaths offsets0 [] of
             (allEntries, offsets1) \<Rightarrow>
               (allEntries,
                state \<lparr> fileOffsets :=
                  Some (\<lambda>trackedFile.
                    if trackedFile \<in> set (map fst (concat claudePaths)) then offsets1 trackedFile
                    else None) \<rparr>))"

subsection \<open>Constants of the v4 hook\<close>

definition THROTTLE_INTERVAL :: int where
  "THROTTLE_INTERVAL = 30000"

definition SEND_BUDGET_MS :: int where
  "SEND_BUDGET_MS = 10000"

definition BATCH_SIZE :: nat where
  "BATCH_SIZE = 200"

definition LOCK_TIMEOUT :: int where
  "LOCK_TIMEOUT = 1000"

definition LOCK_STALE_TIME :: int where
  "LOCK_STALE_TIME = 10000"

subsection \<open>\<^verbatim>\<open>FileLock\<close>\<close>

record FileLock =
  acquired :: bool

text \<open>What is found at the path of the lock file: nothing, a file that does not parse
  into an object, or a lock document, of which only the time of its \<^verbatim>\<open>timestamp\<close> in
  milliseconds is read (\<open>None\<close> when \<^verbatim>\<open>getTime()\<close> is \<^verbatim>\<open>NaN\<close>). The lock file is
  passed through the calls of one process; what other processes do to it between two
  file-system calls of \<^verbatim>\<open>acquire\<close> is not modelled.\<close>

datatype lock_file = NoLockFile | CorruptLockFile | LockFile "int option"

text \<open>The clock and the file system as \<^verbatim>\<open>acquire\<close> meets them: the value of
  \<^verbatim>\<open>Date.now()\<close> on entry, by how much the \<open>i\<close>-th wait of 50 ms overruns, and whether
  the \<^verbatim>\<open>open\<close> of the \<open>i\<close>-th round fails with an error other than \<^verbatim>\<open>EEXIST\<close>.\<close>

record lock_env =
  lock_start :: int
  sleep_lag :: "nat \<Rightarrow> nat"
  open_error :: "nat \<Rightarrow> bool"

text \<open>\<^verbatim>\<open>open(lockFile, 'wx')\<close> followed by the write of \<^verbatim>\<open>{pid, timestamp}\<close>.\<close>

definition open_wx :: "lock_env \<Rightarrow> nat \<Rightarrow> int \<Rightarrow> lock_file \<Rightarrow> exn + lock_file" where
  "open_wx le i now lf =
     (if lf \<noteq> NoLockFile then Inl EEXIST
      else if open_error le i then Inl IOError
      else Inr (LockFile (Some now)))"

text \<open>The body of the \<^verbatim>\<open>try\<close> block of one round. \<open>Inr None\<close> is the \<^verbatim>\<open>continue\<close> after
  the wait on a lock that is not stale, \<open>Inr (Some lf)\<close> the \<^verbatim>\<open>return true\<close> with the lock
  file created, \<open>Inl\<close> an exception together with the lock file as it is left.\<close>

definition attempt :: "lock_env \<Rightarrow> nat \<Rightarrow> int \<Rightarrow> lock_file \<Rightarrow> (exn \<times> lock_file) + lock_file option" where
  "attempt le i now lf =
     (case lf of
        NoLockFile \<Rightarrow>
          (case open_wx le i now lf of Inl e \<Rightarrow> Inl (e, lf) | Inr lf' \<Rightarrow> Inr (Some lf'))
      | CorruptLockFile \<Rightarrow> Inl (SyntaxError, lf)
      | LockFile ts \<Rightarrow>
          if (case ts of None \<Rightarrow> False | Some t \<Rightarrow> now - t > LOCK_STALE_TIME)
          then
            (case open_wx le i now NoLockFile of
               Inl e \<Rightarrow> Inl (e, NoLockFile)
             | Inr lf' \<Rightarrow> Inr (Some lf'))
          else Inr None)"

function acquire_loop ::
  "lock_env \<Rightarrow> int \<Rightarrow> int \<Rightarrow> nat \<Rightarrow> int \<Rightarrow> FileLock \<Rightarrow> lock_file \<Rightarrow>
   (exn + bool) \<times> FileLock \<times> lock_file" where
  "acquire_loop le timeout startTime i now lock lf =
     (if now - startTime < timeout then
        (case attempt le i now lf of
           Inr (Some lf') \<Rightarrow> (Inr True, lock \<lparr> acquired := True \<rparr>, lf')
         | Inr None \<Rightarrow>
             acquire_loop le timeout startTime (Suc i) (now + 50 + int (sleep_lag le i)) lock lf
         | Inl (e, lf') \<Rightarrow>
             if e = EEXIST
             then acquire_loop le timeout startTime (Suc i) (now + 50 + int (sleep_lag le i)) lock lf'
             else (Inl e, lock, lf'))
      else (Inr False, lock, lf))"
  by pat_completeness auto
termination
  by (relation "measure (\<lambda>(le, timeout, startTime, i, now, lock, lf). nat (timeout - (now - startTime)))")
     auto

declare acquire_loop.simps [simp del]

definition acquire :: "lock_env \<Rightarrow> int \<Rightarrow> FileLock \<Rightarrow> lock_file \<Rightarrow> (exn + bool) \<times> FileLock \<times> lock_file" where
  "acquire le timeout lock lf = acquire_loop le timeout (lock_start le) 0 (lock_start le) lock lf"

text \<open>\<^verbatim>\<open>release\<close>: the \<^verbatim>\<open>unlink\<close> of a file that is not there throws, the exception is
  swallowed and the flag stays set.\<close>

definition release :: "FileLock \<Rightarrow> lock_file \<Rightarrow> FileLock \<times> lock_file" where
  "release lock lf =
     (if acquired lock then
        (case lf of
           NoLockFile \<Rightarrow> (lock, lf)
         | _ \<Rightarrow> (lock \<lparr> acquired := False \<rparr>, NoLockFile))
      else (lock, lf))"

subsection \<open>Delivery scheduler (\<^verbatim>\<open>sendWithBudget\<close>)\<close>

text \<open>\<^verbatim>\<open>entries.slice(s, e)\<close> for \<open>s \<le> e\<close>.\<close>

definition slice :: "'a list \<Rightarrow> nat \<Rightarrow> nat \<Rightarrow> 'a list" where
  "slice xs s e = take (e - s) (drop s xs)"

text \<open>\<^verbatim>\<open>sendRequest\<close>: \<^verbatim>\<open>new URL(config.serverUrl)\<close> throws a TypeError when the URL does
  not parse (\<open>url_ok\<close> is false); otherwise the promise resolves, with \<^verbatim>\<open>success\<close> decided
  by the network: \<open>net k batch\<close> for the \<open>k\<close>-th request of the run.\<close>

definition sendRequest :: "bool \<Rightarrow> (nat \<Rightarrow> 'a list \<Rightarrow> bool) \<Rightarrow> nat \<Rightarrow> 'a list \<Rightarrow> exn + bool" where
  "sendRequest url_ok net k batch = (if \<not> url_ok then Inl TypeError else Inr (net k batch))"

text \<open>The \<^verbatim>\<open>while\<close> loop. \<open>clock k\<close> is \<^verbatim>\<open>Date.now()\<close> at the budget check of round \<open>k\<close>.
  Besides \<^verbatim>\<open>totalSent\<close> the model returns the requests issued, in order, each with its
  batch and its outcome.\<close>

function sendLoop ::
  "bool \<Rightarrow> (nat \<Rightarrow> 'a list \<Rightarrow> bool) \<Rightarrow> (nat \<Rightarrow> int) \<Rightarrow> int \<Rightarrow> 'a list \<Rightarrow> nat \<Rightarrow> nat \<Rightarrow>
   ('a list \<times> bool) list \<Rightarrow> exn + (nat \<times> ('a list \<times> bool) list)" where
  "sendLoop url_ok net clock startTime entries batchIndex totalSent reqs =
     (if batchIndex * BATCH_SIZE < length entries then
        (if clock batchIndex - startTime \<ge> SEND_BUDGET_MS then Inr (totalSent, reqs)
         else
           (let start = batchIndex * BATCH_SIZE;
                batch = slice entries start (start + BATCH_SIZE)
            in case sendRequest url_ok net batchIndex batch of
                 Inl e \<Rightarrow> Inl e
               | Inr success \<Rightarrow>
                   if success then
                     sendLoop url_ok net clock startTime entries (batchIndex + 1)
                       (totalSent + length batch) (reqs @ [(batch, True)])
                   else Inr (totalSent, reqs @ [(batch, False)])))
      else Inr (totalSent, reqs))"
  by pat_completeness auto
termination
  by (relation "measure (\<lambda>(u, n, c, s, entries, batchIndex, t, r). length entries - batchIndex * BATCH_SIZE)")
     (auto simp: BATCH_SIZE_def)

declare sendLoop.simps [simp del]

definition sendWithBudget ::
  "bool \<Rightarrow> (nat \<Rightarrow> 'a list \<Rightarrow> bool) \<Rightarrow> (nat \<Rightarrow> int) \<Rightarrow> int \<Rightarrow> 'a list \<Rightarrow>
   exn + (nat \<times> 'a list \<times> ('a list \<times> bool) list)" where
  "sendWithBudget url_ok net clock startTime entries =
     (case sendLoop url_ok net clock startTime entries 0 0 [] of
        Inl e \<Rightarrow> Inl e
      | Inr (totalSent, reqs) \<Rightarrow> Inr (totalSent, drop totalSent entries, reqs))"

subsection \<open>Logger, configuration, buffer, atomic writes\<close>

text \<open>\<^verbatim>\<open>StatsLogger\<close>: whether \<^verbatim>\<open>CLAUDE_STATS_DEBUG\<close> is set and whether \<^verbatim>\<open>appendFile\<close>
  succeeds. The \<^verbatim>\<open>stat\<close> and \<^verbatim>\<open>rename\<close> of the rotation sit in a \<^verbatim>\<open>try\<close> block of
  their own whose \<^verbatim>\<open>catch\<close> is empty. The log file is not part of the model.\<close>

record logger =
  debug_enabled :: bool
  append_ok :: bool

definition appendWithRotation :: "logger \<Rightarrow> exn + unit" where
  "appendWithRotation lg = (if append_ok lg then Inr () else Inl IOError)"

definition log :: "logger \<Rightarrow> exn + unit" where
  "log lg =
     (if \<not> debug_enabled lg then Inr ()
      else (case appendWithRotation lg of Inl e \<Rightarrow> Inr () | Inr u \<Rightarrow> Inr ()))"

record config =
  enabled :: bool
  serverUrl :: string
  username :: string

datatype config_file = NoConfigFile | BadConfigFile | ConfigFile config

text \<open>The buffer document holds \<^verbatim>\<open>pendingEntries\<close>; its \<^verbatim>\<open>lastAttempt\<close> is never read.\<close>

datatype buffer_file = NoBufferFile | CorruptBufferFile | BufferFile "entry list"

definition loadBuffer :: "buffer_file \<Rightarrow> entry list option" where
  "loadBuffer bf = (case bf of BufferFile pendingEntries \<Rightarrow> Some pendingEntries | _ \<Rightarrow> None)"

text \<open>\<^verbatim>\<open>clearBuffer\<close> swallows the exception of an \<^verbatim>\<open>unlink\<close> that fails.\<close>

definition clearBuffer :: "bool \<Rightarrow> buffer_file \<Rightarrow> buffer_file" where
  "clearBuffer unlink_ok bf = (if unlink_ok then NoBufferFile else bf)"

text \<open>\<^verbatim>\<open>atomicWriteJson\<close>: the document is written to a temporary file which is then renamed
  over the path; when either step throws the file at the path is as before.\<close>

definition atomicWriteJson :: "bool \<Rightarrow> 'f \<Rightarrow> exn + 'f" where
  "atomicWriteJson write_ok doc = (if write_ok then Inr doc else Inl IOError)"

subsection \<open>The v4 orchestrator (\<^verbatim>\<open>main\<close>)\<close>

record disk =
  STATE_FILE :: state_file
  BUFFER_FILE :: buffer_file
  LOCK_FILE :: lock_file

text \<open>Everything a run reads that is not one of the three files.\<close>

record env =
  js_runtime :: runtime
  url_parses :: "string \<Rightarrow> bool"
  stats_logger :: logger
  config_json :: config_file
  now :: int
  now_iso :: string
  cutoff_key :: string
  lock_clock :: lock_env
  claudePaths :: "(string \<times> file_obs) list list"
  unlink_buffer_ok :: bool
  network :: "nat \<Rightarrow> entry list \<Rightarrow> bool"
  send_start :: int
  send_clock :: "nat \<Rightarrow> int"
  write_buffer_ok :: bool
  write_state_ok :: bool

text \<open>The \<^verbatim>\<open>try\<close> block from phase 1 on, with the lock held. The result is the exception
  thrown (if any), the files, the lock object and the requests issued.\<close>

definition main_locked ::
  "env \<Rightarrow> config \<Rightarrow> scan_state \<Rightarrow> disk \<Rightarrow> FileLock \<Rightarrow>
   exn option \<times> disk \<times> FileLock \<times> (entry list \<times> bool) list" where
  "main_locked env config state d lock =
     (case collectNewUsageDataIncremental (js_runtime env) (claudePaths env) state of
        (newEntries, state1) \<Rightarrow>
          (case (if newEntries \<noteq> []
                 then updateStateHashes (cutoff_key env) (now_iso env) state1 newEntries
                 else Inr state1) of
             Inl e \<Rightarrow> (Some e, d, lock, [])
           | Inr state2 \<Rightarrow>
               let bufferedEntries = (case loadBuffer (BUFFER_FILE d) of None \<Rightarrow> [] | Some es \<Rightarrow> es);
                   allEntries = bufferedEntries @ newEntries;
                   d1 = d \<lparr> BUFFER_FILE := clearBuffer (unlink_buffer_ok env) (BUFFER_FILE d) \<rparr>;
                   state3 = state2 \<lparr> lastRunTimestamp := Some (now env) \<rparr>
               in if allEntries = [] then
                    (case atomicWriteJson (write_state_ok env) (StateFile state3) of
                       Inl e \<Rightarrow> (Some e, d1, lock, [])
                     | Inr sf \<Rightarrow> (None, d1 \<lparr> STATE_FILE := sf \<rparr>, lock, []))
                  else
                    (case sendWithBudget (url_parses env (serverUrl config)) (network env)
                            (send_clock env) (send_start env) allEntries of
                       Inl e \<Rightarrow> (Some e, d1, lock, [])
                     | Inr (totalSent, unsent, reqs) \<Rightarrow>
                         (case (if unsent \<noteq> []
                                then atomicWriteJson (write_buffer_ok env) (BufferFile unsent)
                                else Inr (BUFFER_FILE d1)) of
                            Inl e \<Rightarrow> (Some e, d1, lock, reqs)
                          | Inr bf \<Rightarrow>
                              (case atomicWriteJson (write_state_ok env) (StateFile state3) of
                                 Inl e \<Rightarrow> (Some e, d1 \<lparr> BUFFER_FILE := bf \<rparr>, lock, reqs)
                               | Inr sf \<Rightarrow>
                                   (None, d1 \<lparr> BUFFER_FILE := bf, STATE_FILE := sf \<rparr>, lock, reqs))))))"

text \<open>The \<^verbatim>\<open>try\<close> block of \<^verbatim>\<open>main\<close>.\<close>

definition main_try ::
  "env \<Rightarrow> disk \<Rightarrow> FileLock \<Rightarrow> exn option \<times> disk \<times> FileLock \<times> (entry list \<times> bool) list" where
  "main_try env d lock =
     (case config_json env of
        NoConfigFile \<Rightarrow> (None, d, lock, [])
      | BadConfigFile \<Rightarrow> (Some SyntaxError, d, lock, [])
      | ConfigFile config \<Rightarrow>
          if \<not> enabled config \<or> serverUrl config = [] then (None, d, lock, [])
          else
            let state = loadState (now_iso env) (STATE_FILE d) in
            if (case lastRunTimestamp state of
                  None \<Rightarrow> False
                | Some t \<Rightarrow> now env - t < THROTTLE_INTERVAL)
            then (None, d, lock, [])
            else
              (case acquire (lock_clock env) LOCK_TIMEOUT lock (LOCK_FILE d) of
                 (Inl e, lock1, lf) \<Rightarrow> (Some e, d \<lparr> LOCK_FILE := lf \<rparr>, lock1, [])
               | (Inr False, lock1, lf) \<Rightarrow> (None, d \<lparr> LOCK_FILE := lf \<rparr>, lock1, [])
               | (Inr True, lock1, lf) \<Rightarrow>
                   main_locked env config state (d \<lparr> LOCK_FILE := lf \<rparr>) lock1))"

datatype settled = Resolved | Rejected exn

text \<open>\<^verbatim>\<open>main\<close>: the \<^verbatim>\<open>try\<close> block, the \<^verbatim>\<open>catch\<close> block (which logs) and the \<^verbatim>\<open>finally\<close>
  block (which releases the lock). The result is how the promise settles, the files
  after the run, the requests issued and the exception the \<^verbatim>\<open>catch\<close> block saw.\<close>

definition main :: "env \<Rightarrow> disk \<Rightarrow> settled \<times> disk \<times> (entry list \<times> bool) list \<times> exn option" where
  "main env d =
     (case main_try env d \<lparr> acquired = False \<rparr> of
        (thrown, d1, lock, reqs) \<Rightarrow>
          let handled = (case thrown of None \<Rightarrow> Inr () | Some e \<Rightarrow> log (stats_logger env))
          in case release lock (LOCK_FILE d1) of
               (lock', lf) \<Rightarrow>
                 ((case handled of Inl e \<Rightarrow> Rejected e | Inr u \<Rightarrow> Resolved),
                  d1 \<lparr> LOCK_FILE := lf \<rparr>, reqs, thrown))"

text \<open>The records that were delivered: the batches of the requests that succeeded.\<close>

definition delivered :: "('a list \<times> bool) list \<Rightarrow> 'a list" where
  "delivered reqs = concat (map fst (filter snd reqs))"

text \<open>The records of every batch that was put on the wire.\<close>

definition transmitted :: "('a list \<times> bool) list \<Rightarrow> 'a list" where
  "transmitted reqs = concat (map fst reqs)"

definition pending :: "buffer_file \<Rightarrow> entry list" where
  "pending bf = (case loadBuffer bf of None \<Rightarrow> [] | Some es \<Rightarrow> es)"

subsection \<open>Exit codes\<close>

text \<open>How Node ends a process: \<^verbatim>\<open>process.exit(c)\<close> ends it at once with code \<open>c\<close>; when
  the script's last promise resolves and nothing is left to run, the code is 0; a
  rejection nobody handles ends it with code 1.\<close>

datatype ending = Exited int | Settled settled

definition exit_code :: "ending \<Rightarrow> int" where
  "exit_code e = (case e of Exited c \<Rightarrow> c | Settled Resolved \<Rightarrow> 0 | Settled (Rejected x) \<Rightarrow> 1)"

text \<open>v4: \<^verbatim>\<open>main().catch(() => {}).finally(() => process.exit(0))\<close>\<close>

definition catch_ignore :: "settled \<Rightarrow> settled" where
  "catch_ignore p = (case p of Rejected e \<Rightarrow> Resolved | Resolved \<Rightarrow> Resolved)"

definition finally_exit :: "int \<Rightarrow> settled \<Rightarrow> ending" where
  "finally_exit c p = Exited c"

definition script_v4 :: "env \<Rightarrow> disk \<Rightarrow> ending" where
  "script_v4 env d = finally_exit 0 (catch_ignore (fst (main env d)))"

text \<open>v3: the script calls \<^verbatim>\<open>main()\<close> and attaches no handler; \<^verbatim>\<open>main\<close> itself calls
  \<^verbatim>\<open>process.exit(0)\<close> on every path. Each awaited call is given by its outcome: an
  exception, or the values that \<^verbatim>\<open>main\<close> branches on.\<close>

record env3 =
  config_json3 :: config_file
  stats_logger3 :: logger
  acquire3 :: "exn + bool"
  analyzeBuffer3 :: "bool \<times> nat"
  processLargeBuffer3 :: "exn + (bool \<times> nat)"
  collect3 :: "exn + nat"
  sendBatchOptimized3 :: "exn + (nat \<times> nat)"
  updateState3 :: "exn + unit"
  saveToBuffer3 :: "exn + unit"

text \<open>The \<^verbatim>\<open>try\<close> block of the v3 \<^verbatim>\<open>main\<close>: \<open>Inl\<close> an exception thrown, \<open>Inr c\<close> a call of
  \<^verbatim>\<open>process.exit(c)\<close>.\<close>

definition main_try3 :: "env3 \<Rightarrow> exn + int" where
  "main_try3 e =
     (case config_json3 e of
        NoConfigFile \<Rightarrow> Inr 0
      | BadConfigFile \<Rightarrow> Inl SyntaxError
      | ConfigFile config \<Rightarrow>
          if \<not> enabled config \<or> serverUrl config = [] then Inr 0
          else
            (case acquire3 e of
               Inl x \<Rightarrow> Inl x
             | Inr False \<Rightarrow> Inr 0
             | Inr True \<Rightarrow>
                 (case (if fst (analyzeBuffer3 e) \<and> snd (analyzeBuffer3 e) > 0
                        then (case processLargeBuffer3 e of
                                Inl x \<Rightarrow> Inl x
                              | Inr (success, remaining) \<Rightarrow>
                                  Inr (\<not> success \<or> remaining > 0))
                        else Inr False) of
                    Inl x \<Rightarrow> Inl x
                  | Inr True \<Rightarrow> Inr 0
                  | Inr False \<Rightarrow>
                      (case collect3 e of
                         Inl x \<Rightarrow> Inl x
                       | Inr newEntries \<Rightarrow>
                           if newEntries > 0 then
                             (case sendBatchOptimized3 e of
                                Inl x \<Rightarrow> Inl x
                              | Inr (sentEntries, failedEntries) \<Rightarrow>
                                  (case (if sentEntries > 0 then updateState3 e else Inr ()) of
                                     Inl x \<Rightarrow> Inl x
                                   | Inr u \<Rightarrow>
                                       (case (if failedEntries > 0 then saveToBuffer3 e else Inr ()) of
                                          Inl x \<Rightarrow> Inl x
                                        | Inr u' \<Rightarrow> Inr 0)))
                           else Inr 0))))"

text \<open>The v3 \<^verbatim>\<open>main\<close> with its \<^verbatim>\<open>catch\<close> block, which logs and calls
  \<^verbatim>\<open>process.exit(0)\<close>; the process is gone before a \<^verbatim>\<open>finally\<close> block could run.\<close>

definition main3 :: "env3 \<Rightarrow> ending" where
  "main3 e =
     (case main_try3 e of
        Inr c \<Rightarrow> Exited c
      | Inl x \<Rightarrow>
          (case log (stats_logger3 e) of
             Inl y \<Rightarrow> Settled (Rejected y)
           | Inr u \<Rightarrow> Exited 0))"

definition script_v3 :: "env3 \<Rightarrow> ending" where
  "script_v3 e = main3 e"

subsection \<open>Observations on a run\<close>

text \<open>The Dedup Index of a state, and of the state document in a state file.\<close>

definition index_of_state :: "scan_state \<Rightarrow> recent_hashes" where
  "index_of_state state = (case recentHashes state of None \<Rightarrow> Map.empty | Some m \<Rightarrow> m)"




subsection \<open>Notions used in the statements about collection\<close>






subsection \<open>Example inputs\<close>

text \<open>Log lines, with the values \<^verbatim>\<open>JSON.parse\<close> returns for them. \<open>line_1b\<close> has the
  timestamp and the message id of \<open>line_1\<close>, hence its fingerprint, with another token
  count; \<open>line_frac\<close> has an input token count that is not an integer.\<close>

definition line_1 :: string where
  \<open>line_1 = ''{"timestamp":"2026-11-01T10:00:00Z","message":{"id":"m1","usage":{"input_tokens":10,"output_tokens":20}}}''\<close>

definition data_1 :: json where
  "data_1 = JObj [(''timestamp'', JStr ''2026-11-01T10:00:00Z''),
                  (''message'', JObj [(''id'', JStr ''m1''),
                     (''usage'', JObj [(''input_tokens'', JNum 10), (''output_tokens'', JNum 20)])])]"

definition line_1b :: string where
  \<open>line_1b = ''{"timestamp":"2026-11-01T10:00:00Z","message":{"id":"m1","usage":{"input_tokens":10,"output_tokens":21}}}''\<close>

definition data_1b :: json where
  "data_1b = JObj [(''timestamp'', JStr ''2026-11-01T10:00:00Z''),
                   (''message'', JObj [(''id'', JStr ''m1''),
                      (''usage'', JObj [(''input_tokens'', JNum 10), (''output_tokens'', JNum 21)])])]"

definition line_2 :: string where
  \<open>line_2 = ''{"timestamp":"2026-11-02T09:30:00Z","message":{"id":"m2","usage":{"input_tokens":5,"output_tokens":7}}}''\<close>

definition data_2 :: json where
  "data_2 = JObj [(''timestamp'', JStr ''2026-11-02T09:30:00Z''),
                  (''message'', JObj [(''id'', JStr ''m2''),
                     (''usage'', JObj [(''input_tokens'', JNum 5), (''output_tokens'', JNum 7)])])]"

definition line_frac :: string where
  \<open>line_frac = ''{"timestamp":"2026-11-01T10:00:00Z","message":{"usage":{"input_tokens":1.5,"output_tokens":2}}}''\<close>

definition data_frac :: json where
  "data_frac = JObj [(''timestamp'', JStr ''2026-11-01T10:00:00Z''),
                     (''message'', JObj
                        [(''usage'', JObj [(''input_tokens'', JNum (3 / 2)), (''output_tokens'', JNum 2)])])]"

text \<open>A runtime for the examples: \<^verbatim>\<open>JSON.parse\<close> on the four lines above (any other text
  is taken as malformed), a string conversion that is never reached (the timestamps and
  ids of the examples are strings), and in place of SHA-256 an injective stand-in.\<close>

definition rt0 :: runtime where
  "rt0 = \<lparr> JSON_parse = map_of [(line_1, data_1), (line_1b, data_1b), (line_2, data_2),
                                  (line_frac, data_frac)],
           ToString = (\<lambda>v. None),
           sha256_hex = (\<lambda>s. ''sha256:'' @ s) \<rparr>"

definition entry_1 :: entry where
  "entry_1 = \<lparr> timestamp = JStr ''2026-11-01T10:00:00Z'', tokens_input = 10, tokens_output = 20,
               tokens_cache_creation = JNum 0, tokens_cache_read = JNum 0,
               model = JStr ''unknown'', session_id = JNull,
               interaction_hash = ''sha256:2026-11-01T10:00:00Zm1'' \<rparr>"

definition entry_1b :: entry where
  "entry_1b = entry_1 \<lparr> tokens_output := 21 \<rparr>"

definition entry_2 :: entry where
  "entry_2 = \<lparr> timestamp = JStr ''2026-11-02T09:30:00Z'', tokens_input = 5, tokens_output = 7,
               tokens_cache_creation = JNum 0, tokens_cache_read = JNum 0,
               model = JStr ''unknown'', session_id = JNull,
               interaction_hash = ''sha256:2026-11-02T09:30:00Zm2'' \<rparr>"

text \<open>A log file: as scanned by the run that saved the offset entry of \<open>offsets_a\<close> (one
  line, 106 bytes with its line feed), and after an empty line and a second line have been
  appended (211 bytes). Modification times are abbreviated to small numbers.\<close>

definition path_a :: string where
  "path_a = ''/home/u/.claude/projects/a/s.jsonl''"

definition file_a :: file_obs where
  "file_a = \<lparr> fstat = Inr (106, 5),
              stream_lines = (\<lambda>start. if start = 0 then ([line_1], None) else ([], None)) \<rparr>"

definition file_a_grown :: file_obs where
  "file_a_grown = \<lparr> fstat = Inr (211, 9),
                    stream_lines = (\<lambda>start. if start = 0 then ([line_1, [], line_2], None)
                                            else if start = 106 then ([[], line_2], None)
                                            else ([], None)) \<rparr>"

definition offsets_a :: file_offsets where
  "offsets_a = [path_a \<mapsto> \<lparr> offset = 106, size_bytes = 106, mtime = 5 \<rparr>]"



text \<open>Runs on 2026-11-03 at 08:00 UTC and one minute later. In \<open>env_down\<close> the server
  answers every request with a failure, in \<open>env_up\<close> with 200; in \<open>env_bad_url\<close> the
  configured server URL has no scheme, so that \<^verbatim>\<open>new URL\<close> throws; in \<open>env_grown\<close> the
  log file has grown; in \<open>env_two\<close> there are two log files.\<close>

definition config_ok :: config where
  "config_ok = \<lparr> enabled = True, serverUrl = ''http://localhost:3000'', username = ''dev'' \<rparr>"

definition env_down :: env where
  "env_down =
     \<lparr> js_runtime = rt0,
       url_parses = (\<lambda>u. u = ''http://localhost:3000''),
       stats_logger = \<lparr> debug_enabled = False, append_ok = True \<rparr>,
       config_json = ConfigFile config_ok,
       now = 1793692800000,
       now_iso = ''2026-11-03T08:00:00.000Z'',
       cutoff_key = ''2026-10-04'',
       lock_clock = \<lparr> lock_start = 1793692800002, sleep_lag = (\<lambda>i. 0), open_error = (\<lambda>i. False) \<rparr>,
       claudePaths = [[(path_a, file_a)]],
       unlink_buffer_ok = True,
       network = (\<lambda>k batch. False),
       send_start = 1793692800010,
       send_clock = (\<lambda>k. 1793692800010 + 40 * int k),
       write_buffer_ok = True,
       write_state_ok = True \<rparr>"

definition env_up :: env where
  "env_up = env_down \<lparr> now := 1793692860000, now_iso := ''2026-11-03T08:01:00.000Z'',
                       network := (\<lambda>k batch. True) \<rparr>"

definition env_bad_url :: env where
  "env_bad_url = env_up \<lparr> config_json := ConfigFile (config_ok \<lparr> serverUrl := ''example.com'' \<rparr>) \<rparr>"



text \<open>The files before the first run, after a first run in \<open>env_down\<close>, and a state that
  holds a fingerprint of the year 2020.\<close>

definition disk_empty :: disk where
  "disk_empty = \<lparr> STATE_FILE = NoStateFile, BUFFER_FILE = NoBufferFile, LOCK_FILE = NoLockFile \<rparr>"

definition state_1 :: scan_state where
  "state_1 =
     \<lparr> version = Some (VStr ''4.0.0''),
       lastCleanup = Some ''2026-11-03T08:00:00.000Z'',
       lastRunTimestamp = Some 1793692800000,
       recentHashes = Some [''2026-11-01'' \<mapsto> [''sha256:2026-11-01T10:00:00Zm1'']],
       fileOffsets = Some offsets_a \<rparr>"

definition disk_1 :: disk where
  "disk_1 = \<lparr> STATE_FILE = StateFile state_1, BUFFER_FILE = BufferFile [entry_1],
               LOCK_FILE = NoLockFile \<rparr>"







section \<open>Verification\<close>

subsection \<open>Delivery scheduler\<close>








subsection \<open>State load\<close>

text \<open>
  Claim C7. \<^verbatim>\<open>loadState\<close> compares the major component of the persisted version as a
  number. A state whose version is absent, or is a string whose major component
  \<^verbatim>\<open>parseInt\<close> reads as a number below 4, comes back with version \<open>4.0.0\<close> and with
  each of \<open>fileOffsets\<close>, \<open>lastRunTimestamp\<close>, \<open>recentHashes\<close>, \<open>lastCleanup\<close> that was
  missing set to its default (a field that was there is kept; an empty \<open>lastCleanup\<close>
  counts as missing). A state whose major component reads as a number of at least 4 comes
  back unchanged; so does one with version \<open>10.0.0\<close>, although that string is below
  \<open>4.0.0\<close> in the lexicographic order.
\<close>

theorem loadState_numeric_major:
  "((version s = None \<or>
     (\<exists>str m. version s = Some (VStr str) \<and> parseInt (major_text (version s)) = Some m \<and> m < 4)) \<longrightarrow>
      version (loadState nowISO (StateFile s)) = Some (VStr ''4.0.0'') \<and>
      fileOffsets (loadState nowISO (StateFile s)) =
        (case fileOffsets s of None \<Rightarrow> Some Map.empty | Some m \<Rightarrow> Some m) \<and>
      lastRunTimestamp (loadState nowISO (StateFile s)) =
        (case lastRunTimestamp s of None \<Rightarrow> Some 0 | Some t \<Rightarrow> Some t) \<and>
      recentHashes (loadState nowISO (StateFile s)) =
        (case recentHashes s of None \<Rightarrow> Some Map.empty | Some m \<Rightarrow> Some m) \<and>
      lastCleanup (loadState nowISO (StateFile s)) =
        (case lastCleanup s of None \<Rightarrow> Some nowISO | Some c \<Rightarrow> if c = [] then Some nowISO else Some c)) \<and>
   ((\<exists>str m. version s = Some (VStr str) \<and> parseInt (major_text (version s)) = Some m \<and> 4 \<le> m) \<longrightarrow>
      loadState nowISO (StateFile s) = s) \<and>
   loadState nowISO (StateFile (s \<lparr> version := Some (VStr ''10.0.0'') \<rparr>))
     = s \<lparr> version := Some (VStr ''10.0.0'') \<rparr> \<and>
   ''10.0.0'' < ''4.0.0''"
proof (intro conjI impI)
  assume old: "version s = None \<or>
     (\<exists>str m. version s = Some (VStr str) \<and> parseInt (major_text (version s)) = Some m \<and> m < 4)"
  then have "loadState nowISO (StateFile s) = migrate nowISO s"
    by (auto simp: loadState_def version_missing_def Let_def split: option.splits version_val.splits)
  then show "version (loadState nowISO (StateFile s)) = Some (VStr ''4.0.0'')"
    and "fileOffsets (loadState nowISO (StateFile s)) =
        (case fileOffsets s of None \<Rightarrow> Some Map.empty | Some m \<Rightarrow> Some m)"
    and "lastRunTimestamp (loadState nowISO (StateFile s)) =
        (case lastRunTimestamp s of None \<Rightarrow> Some 0 | Some t \<Rightarrow> Some t)"
    and "recentHashes (loadState nowISO (StateFile s)) =
        (case recentHashes s of None \<Rightarrow> Some Map.empty | Some m \<Rightarrow> Some m)"
    and "lastCleanup (loadState nowISO (StateFile s)) =
        (case lastCleanup s of None \<Rightarrow> Some nowISO | Some c \<Rightarrow> if c = [] then Some nowISO else Some c)"
    by (simp_all add: migrate_def split: option.splits)
next
  assume "\<exists>str m. version s = Some (VStr str) \<and> parseInt (major_text (version s)) = Some m \<and> 4 \<le> m"
  then obtain str m where v: "version s = Some (VStr str)"
    and m: "parseInt (major_text (Some (VStr str))) = Some m" "4 \<le> m"
    by auto
  have "str \<noteq> []"
  proof
    assume "str = []"
    with m(1) have "m = 0"
      by (simp add: parseInt_def major_text_def is_space_def is_digit_def digits_value_def Let_def)
    with m(2) show False by simp
  qed
  with v m show "loadState nowISO (StateFile s) = s"
    by (simp add: loadState_def version_missing_def Let_def)
next
  have "parseInt (major_text (Some (VStr ''10.0.0''))) = Some 10"
    by (simp add: parseInt_def major_text_def is_space_def is_digit_def digits_value_def Let_def)
  then show "loadState nowISO (StateFile (s \<lparr> version := Some (VStr ''10.0.0'') \<rparr>))
     = s \<lparr> version := Some (VStr ''10.0.0'') \<rparr>"
    by (simp add: loadState_def version_missing_def Let_def)
next
  show "''10.0.0'' < ''4.0.0''" by simp
qed


theorem loadState_numeric_major_witness:
  "version \<lparr> version = None, lastCleanup = Some ''2025-06-01T10:00:00.000Z'', lastRunTimestamp = None,
             recentHashes = Some Map.empty, fileOffsets = None \<rparr> = None \<and>
   loadState ''2026-11-03T08:00:00.000Z''
     (StateFile \<lparr> version = None, lastCleanup = Some ''2025-06-01T10:00:00.000Z'',
                  lastRunTimestamp = None, recentHashes = Some Map.empty, fileOffsets = None \<rparr>)
     = \<lparr> version = Some (VStr ''4.0.0''), lastCleanup = Some ''2025-06-01T10:00:00.000Z'',
         lastRunTimestamp = Some 0, recentHashes = Some Map.empty, fileOffsets = Some Map.empty \<rparr> \<and>
   parseInt (major_text (Some (VStr ''3.9.1''))) = Some 3 \<and>
   version (loadState ''2026-11-03T08:00:00.000Z''
     (StateFile \<lparr> version = Some (VStr ''3.9.1''), lastCleanup = None, lastRunTimestamp = Some 5,
                  recentHashes = None, fileOffsets = None \<rparr>)) = Some (VStr ''4.0.0'') \<and>
   parseInt (major_text (Some (VStr ''12.1.0''))) = Some 12 \<and>
   loadState ''2026-11-03T08:00:00.000Z''
     (StateFile \<lparr> version = Some (VStr ''12.1.0''), lastCleanup = None, lastRunTimestamp = None,
                  recentHashes = None, fileOffsets = None \<rparr>)
     = \<lparr> version = Some (VStr ''12.1.0''), lastCleanup = None, lastRunTimestamp = None,
         recentHashes = None, fileOffsets = None \<rparr>"
proof -
  have p3: "parseInt (major_text (Some (VStr ''3.9.1''))) = Some 3"
    and p12: "parseInt (major_text (Some (VStr ''12.1.0''))) = Some 12"
    by (simp_all add: parseInt_def major_text_def is_space_def is_digit_def digits_value_def Let_def)
  note a = loadState_numeric_major [of "\<lparr> version = None, lastCleanup = Some ''2025-06-01T10:00:00.000Z'',
             lastRunTimestamp = None, recentHashes = Some Map.empty, fileOffsets = None \<rparr>"
             "''2026-11-03T08:00:00.000Z''"]
  note b = loadState_numeric_major [of "\<lparr> version = Some (VStr ''3.9.1''), lastCleanup = None,
             lastRunTimestamp = Some 5, recentHashes = None, fileOffsets = None \<rparr>"
             "''2026-11-03T08:00:00.000Z''"]
  note c = loadState_numeric_major [of "\<lparr> version = Some (VStr ''12.1.0''), lastCleanup = None,
             lastRunTimestamp = None, recentHashes = None, fileOffsets = None \<rparr>"
             "''2026-11-03T08:00:00.000Z''"]
  have 1: "loadState ''2026-11-03T08:00:00.000Z''
     (StateFile \<lparr> version = None, lastCleanup = Some ''2025-06-01T10:00:00.000Z'',
                  lastRunTimestamp = None, recentHashes = Some Map.empty, fileOffsets = None \<rparr>)
     = \<lparr> version = Some (VStr ''4.0.0''), lastCleanup = Some ''2025-06-01T10:00:00.000Z'',
         lastRunTimestamp = Some 0, recentHashes = Some Map.empty, fileOffsets = Some Map.empty \<rparr>"
    using a by (intro scan_state.equality) simp_all
  have 2: "version (loadState ''2026-11-03T08:00:00.000Z''
     (StateFile \<lparr> version = Some (VStr ''3.9.1''), lastCleanup = None, lastRunTimestamp = Some 5,
                  recentHashes = None, fileOffsets = None \<rparr>)) = Some (VStr ''4.0.0'')"
    using b p3 by simp
  have 3: "loadState ''2026-11-03T08:00:00.000Z''
     (StateFile \<lparr> version = Some (VStr ''12.1.0''), lastCleanup = None, lastRunTimestamp = None,
                  recentHashes = None, fileOffsets = None \<rparr>)
     = \<lparr> version = Some (VStr ''12.1.0''), lastCleanup = None, lastRunTimestamp = None,
         recentHashes = None, fileOffsets = None \<rparr>"
    using c p12 by simp
  from 1 2 3 p3 p12 show ?thesis by simp
qed

subsection \<open>File lock\<close>








subsection \<open>Exit code\<close>

lemma log_returns: "log lg = Inr ()"
  by (simp add: log_def split: sum.splits)

lemma main_resolves: "fst (main env d) = Resolved"
  by (simp add: main_def log_returns split: prod.splits option.splits)

lemma main3_exits: "\<exists>c. main3 e = Exited c \<and> c = 0"
proof (cases "main_try3 e")
  case (Inl x)
  then show ?thesis by (simp add: main3_def log_returns)
next
  case (Inr c)
  then have "c = 0"
    by (auto simp: main_try3_def split: config_file.splits if_splits sum.splits bool.splits prod.splits)
  with Inr show ?thesis by (simp add: main3_def)
qed

text \<open>
  Claim C8. Whatever the configuration, the files, the file system, the network and the
  clock do, and wherever an exception is thrown, both hook scripts end the process with
  exit code 0. In v4 the promise of \<^verbatim>\<open>main\<close> always resolves (the \<^verbatim>\<open>catch\<close> block only
  logs, and logging and releasing the lock never throw) and the script then calls
  \<^verbatim>\<open>process.exit(0)\<close>; in v3 every path through \<^verbatim>\<open>main\<close>, the \<^verbatim>\<open>catch\<close> block included,
  ends in \<^verbatim>\<open>process.exit(0)\<close>.
\<close>

theorem exit_code_always_zero:
  "exit_code (script_v4 env d) = 0 \<and> fst (main env d) = Resolved \<and>
   exit_code (script_v3 e) = 0 \<and> script_v3 e = Exited 0"
proof -
  from main3_exits [of e] have "main3 e = Exited 0" by blast
  then show ?thesis
    by (simp add: script_v4_def script_v3_def finally_exit_def exit_code_def main_resolves)
qed

subsection \<open>Evaluation of the examples\<close>

lemma trim_nospace:
  assumes "s \<noteq> []" "\<not> is_space (hd s)" "\<not> is_space (last s)"
  shows "trim s = s"
proof -
  from assms have "dropWhile is_space s = s"
    by (simp add: dropWhile_eq_self_iff)
  moreover from assms have "dropWhile is_space (rev s) = rev s"
    by (simp add: dropWhile_eq_self_iff hd_rev)
  ultimately show ?thesis by (simp add: trim_def)
qed


lemma trim_line_1: "trim line_1 = line_1"
  by (rule trim_nospace) (simp_all add: line_1_def is_space_def)


lemma trim_line_1b: "trim line_1b = line_1b"
  by (rule trim_nospace) (simp_all add: line_1b_def is_space_def)

lemma trim_line_2: "trim line_2 = line_2"
  by (rule trim_nospace) (simp_all add: line_2_def is_space_def)

lemma parse_line_1: "parseUsageFromLine rt0 line_1 = Some entry_1"
  unfolding parseUsageFromLine_def trim_line_1
  by (simp add: rt0_def usage_of_data_def data_1_def entry_1_def template_or_empty_def
      or_else_def number_of_def Let_def line_1_def)

lemma parse_line_1b: "parseUsageFromLine rt0 line_1b = Some entry_1b"
  unfolding parseUsageFromLine_def trim_line_1b
  by (simp add: rt0_def usage_of_data_def data_1b_def entry_1b_def entry_1_def template_or_empty_def
      or_else_def number_of_def Let_def line_1_def line_1b_def)

lemma parse_line_2: "parseUsageFromLine rt0 line_2 = Some entry_2"
  unfolding parseUsageFromLine_def trim_line_2
  by (simp add: rt0_def usage_of_data_def data_2_def entry_2_def template_or_empty_def
      or_else_def number_of_def Let_def line_1_def line_1b_def line_2_def)

lemma trim_empty: "trim [] = []"
  by (simp add: trim_def)

lemma line_nonempty: "line_1 \<noteq> []" "line_1b \<noteq> []" "line_2 \<noteq> []"
  by (simp_all add: line_1_def line_1b_def line_2_def)

lemma day_key_examples:
  "day_key (timestamp entry_1) = Inr ''2026-11-01''"
  "day_key (timestamp entry_1b) = Inr ''2026-11-01''"
  "day_key (timestamp entry_2) = Inr ''2026-11-02''"
  by (simp_all add: entry_1_def entry_1b_def entry_2_def)

lemma not_inherited: "\<not> inherited_name ''2026-11-01''" "\<not> inherited_name ''2026-11-02''"
  by (simp_all add: inherited_name_def)

lemmas example_simps = trim_empty trim_line_1 trim_line_1b trim_line_2 parse_line_1 parse_line_1b parse_line_2
  line_nonempty day_key_examples not_inherited

lemma scan_grown: "scanLines rt0 Map.empty [[], line_2] [] = ([entry_2], None)"
  by (simp add: example_simps has_hash_def)

subsection \<open>Record parser\<close>







subsection \<open>Incremental reader\<close>

text \<open>
  Claim C5. For a file with a saved offset entry whose \<^verbatim>\<open>stat\<close> succeeds,
  \<^verbatim>\<open>readFileIncremental\<close> returns no entries and leaves the offsets as they are when
  size and mtime equal the saved ones; scans the lines of the stream opened at byte 0
  when the size is below the saved size; otherwise scans the lines of the stream opened
  at the saved offset (nothing when the saved offset is not below the size). Whenever it
  completes after a change, the entry it writes is
  \<open>{offset: size, size: size, mtime: mtime}\<close> of the current \<^verbatim>\<open>stat\<close>; the entry it leaves
  in place for an unchanged file is that same triple when the saved offset equals the
  saved size, as in every entry the reader writes. When an exception is caught the
  offsets are as before.
\<close>

theorem readFileIncremental_decision:
  assumes saved: "offsets filePath = Some saved"
    and stat: "fstat f = Inr (currentSize, currentMtime)"
    and run: "readFileIncremental rt filePath f offsets hashSets = (entries, offsets', caught)"
  shows
    "(size_bytes saved = currentSize \<and> mtime saved = currentMtime \<longrightarrow>
        entries = [] \<and> offsets' = offsets \<and> caught = None) \<and>
     (currentSize < size_bytes saved \<longrightarrow>
        entries = (if 0 < currentSize
                   then fst (scanLines rt hashSets (fst (stream_lines f 0)) []) else [])) \<and>
     (\<not> (size_bytes saved = currentSize \<and> mtime saved = currentMtime) \<and>
      size_bytes saved \<le> currentSize \<longrightarrow>
        entries = (if offset saved < currentSize
                   then fst (scanLines rt hashSets (fst (stream_lines f (offset saved))) []) else [])) \<and>
     (caught = None \<and> \<not> (size_bytes saved = currentSize \<and> mtime saved = currentMtime) \<longrightarrow>
        offsets' = offsets(filePath \<mapsto>
          \<lparr> offset = currentSize, size_bytes = currentSize, mtime = currentMtime \<rparr>)) \<and>
     (caught = None \<and> offset saved = size_bytes saved \<longrightarrow>
        offsets' filePath =
          Some \<lparr> offset = currentSize, size_bytes = currentSize, mtime = currentMtime \<rparr>) \<and>
     (caught \<noteq> None \<longrightarrow> offsets' = offsets)"
proof (cases "size_bytes saved = currentSize \<and> mtime saved = currentMtime")
  case True
  with saved stat run have "entries = []" "offsets' = offsets" "caught = None"
    by (simp_all add: readFileIncremental_def)
  with True saved show ?thesis by (cases saved) simp
next
  case changed: False
  let ?startOffset = "if currentSize < size_bytes saved then 0 else offset saved"
  let ?updated = "\<lparr> offset = currentSize, size_bytes = currentSize, mtime = currentMtime \<rparr>"
  show ?thesis
  proof (cases "currentSize \<le> ?startOffset")
    case True
    with changed saved stat run have "entries = []" "offsets' = offsets(filePath \<mapsto> ?updated)" "caught = None"
      by (auto simp: readFileIncremental_def Let_def split: if_splits)
    with True changed show ?thesis
      by (auto split: if_splits)
  next
    case False
    obtain lines failure where sl: "stream_lines f ?startOffset = (lines, failure)"
      by (cases "stream_lines f ?startOffset")
    obtain es thrown where sc: "scanLines rt hashSets lines [] = (es, thrown)"
      by (cases "scanLines rt hashSets lines []")
    have body: "readFileIncremental rt filePath f offsets hashSets =
        (case thrown of
           Some e \<Rightarrow> (es, offsets, Some e)
         | None \<Rightarrow> (case failure of Some e \<Rightarrow> (es, offsets, Some e)
                     | None \<Rightarrow> (es, offsets(filePath \<mapsto> ?updated), None)))"
      using False changed saved stat sl sc
      by (auto simp: readFileIncremental_def Let_def split: if_splits)
    from body run have e: "entries = es"
      and o: "caught = None \<longrightarrow> offsets' = offsets(filePath \<mapsto> ?updated)"
      and x: "caught \<noteq> None \<longrightarrow> offsets' = offsets"
      by (auto split: option.splits)
    from e sl sc False changed o x show ?thesis
      by (auto split: if_splits)
  qed
qed

theorem readFileIncremental_decision_witness:
  "offsets_a path_a = Some \<lparr> offset = 106, size_bytes = 106, mtime = 5 \<rparr> \<and>
   fstat file_a_grown = Inr (211, 9) \<and>
   readFileIncremental rt0 path_a file_a_grown offsets_a Map.empty
     = ([entry_2], offsets_a(path_a \<mapsto> \<lparr> offset = 211, size_bytes = 211, mtime = 9 \<rparr>), None) \<and>
   fst (scanLines rt0 Map.empty (fst (stream_lines file_a_grown 106)) []) = [entry_2] \<and>
   fstat file_a = Inr (106, 5) \<and>
   readFileIncremental rt0 path_a file_a offsets_a Map.empty = ([], offsets_a, None)"
proof -
  have saved: "offsets_a path_a = Some \<lparr> offset = 106, size_bytes = 106, mtime = 5 \<rparr>"
    by (simp add: offsets_a_def)
  have grown: "fstat file_a_grown = Inr (211, 9)"
    and same: "fstat file_a = Inr (106, 5)"
    by (simp_all add: file_a_grown_def file_a_def)
  have lines: "stream_lines file_a_grown 106 = ([[], line_2], None)"
    by (simp add: file_a_grown_def)
  obtain es os c where run: "readFileIncremental rt0 path_a file_a_grown offsets_a Map.empty = (es, os, c)"
    by (cases "readFileIncremental rt0 path_a file_a_grown offsets_a Map.empty")
  have c: "c = None"
    using run by (simp add: readFileIncremental_def saved grown lines scan_grown del: scanLines.simps)
  from readFileIncremental_decision [OF saved grown run] lines scan_grown c
  have "es = [entry_2]"
    and "os = offsets_a(path_a \<mapsto> \<lparr> offset = 211, size_bytes = 211, mtime = 9 \<rparr>)"
    by simp_all
  with run c have 1: "readFileIncremental rt0 path_a file_a_grown offsets_a Map.empty
     = ([entry_2], offsets_a(path_a \<mapsto> \<lparr> offset = 211, size_bytes = 211, mtime = 9 \<rparr>), None)"
    by simp
  obtain es' os' c' where run': "readFileIncremental rt0 path_a file_a offsets_a Map.empty = (es', os', c')"
    by (cases "readFileIncremental rt0 path_a file_a offsets_a Map.empty")
  from readFileIncremental_decision [OF saved same run']
  have "es' = []" "os' = offsets_a" "c' = None" by simp_all
  with run' have 2: "readFileIncremental rt0 path_a file_a offsets_a Map.empty = ([], offsets_a, None)"
    by simp
  from saved grown same 1 2 lines scan_grown show ?thesis by simp
qed

subsection \<open>Collector\<close>

lemma scanLines_acc:
  "scanLines rt hs lines acc = (acc @ fst (scanLines rt hs lines []), snd (scanLines rt hs lines []))"
proof (induction lines arbitrary: acc)
  case Nil
  then show ?case by simp
next
  case (Cons line rest)
  note ih = Cons.IH
  show ?case
    using ih [of acc] ih [of "[]"]
    apply (simp split: option.splits sum.splits bool.splits)
    using ih [of "acc @ [x]" for x] ih [of "[x]" for x]
    apply (auto split: option.splits sum.splits bool.splits)
    done
qed














subsection \<open>Orchestrator\<close>





lemma delivered_subset_transmitted: "set (delivered reqs) \<subseteq> set (transmitted reqs)"
  by (auto simp: delivered_def transmitted_def)


subsection \<open>Evaluation of the example runs\<close>

lemma main_from_try:
  "main_try env d \<lparr> acquired = False \<rparr> = (thrown, d1, lock, reqs) \<Longrightarrow>
     main env d = (Resolved, d1 \<lparr> LOCK_FILE := snd (release lock (LOCK_FILE d1)) \<rparr>, reqs, thrown)"
  by (simp add: main_def log_returns split: prod.splits option.splits)

lemma main_try_locked:
  assumes "config_json env = ConfigFile config" "enabled config" "serverUrl config \<noteq> []"
    and "lastRunTimestamp (loadState (now_iso env) (STATE_FILE d)) = Some t"
    and "\<not> now env - t < THROTTLE_INTERVAL"
    and "acquire (lock_clock env) LOCK_TIMEOUT lock (LOCK_FILE d) = (Inr True, lock1, lf)"
  shows "main_try env d lock
      = main_locked env config (loadState (now_iso env) (STATE_FILE d)) (d \<lparr> LOCK_FILE := lf \<rparr>) lock1"
  using assms by (simp add: main_try_def Let_def)

lemma env_down_fields:
  "js_runtime env_down = rt0"
  "url_parses env_down = (\<lambda>u. u = ''http://localhost:3000'')"
  "config_json env_down = ConfigFile config_ok"
  "now env_down = 1793692800000"
  "now_iso env_down = ''2026-11-03T08:00:00.000Z''"
  "cutoff_key env_down = ''2026-10-04''"
  "lock_clock env_down = \<lparr> lock_start = 1793692800002, sleep_lag = (\<lambda>i. 0), open_error = (\<lambda>i. False) \<rparr>"
  "claudePaths env_down = [[(path_a, file_a)]]"
  "unlink_buffer_ok env_down"
  "network env_down = (\<lambda>k batch. False)"
  "send_start env_down = 1793692800010"
  "send_clock env_down = (\<lambda>k. 1793692800010 + 40 * int k)"
  "write_buffer_ok env_down"
  "write_state_ok env_down"
  by (simp_all add: env_down_def)


lemma config_ok_fields:
  "enabled config_ok" "serverUrl config_ok = ''http://localhost:3000''"
  by (simp_all add: config_ok_def)

lemma acquire_free:
  "acquire \<lparr> lock_start = 1793692800002, sleep_lag = (\<lambda>i. 0), open_error = (\<lambda>i. False) \<rparr>
     LOCK_TIMEOUT \<lparr> acquired = False \<rparr> NoLockFile
     = (Inr True, \<lparr> acquired = True \<rparr>, LockFile (Some 1793692800002))"
  by (simp add: acquire_def acquire_loop.simps attempt_def open_wx_def LOCK_TIMEOUT_def)

lemma release_held: "release \<lparr> acquired = True \<rparr> (LockFile t) = (\<lparr> acquired = False \<rparr>, NoLockFile)"
  by (simp add: release_def)

lemma scan_a: "scanLines rt0 hs [line_1] [] =
    (case has_hash hs ''2026-11-01'' ''sha256:2026-11-01T10:00:00Zm1'' of
       Inl e \<Rightarrow> ([], Some e) | Inr True \<Rightarrow> ([], None) | Inr False \<Rightarrow> ([entry_1], None))"
  by (simp add: example_simps split: sum.splits bool.splits) (simp add: entry_1_def)

lemma read_a_new:
  "readFileIncremental rt0 path_a file_a Map.empty Map.empty = ([entry_1], offsets_a, None)"
  by (simp add: readFileIncremental_def file_a_def scan_a has_hash_def example_simps offsets_a_def
      del: scanLines.simps)

lemma collect_1:
  "collectNewUsageDataIncremental rt0 [[(path_a, file_a)]] (createDefaultState nowISO)
     = ([entry_1], (createDefaultState nowISO) \<lparr> fileOffsets := Some offsets_a \<rparr>)"
proof -
  have "(\<lambda>trackedFile. if trackedFile = path_a then offsets_a trackedFile else None) = offsets_a"
    by (auto simp: offsets_a_def)
  then show ?thesis
    by (simp add: collectNewUsageDataIncremental_def createDefaultState_def buildHashSets_def read_a_new)
qed

lemma prune_1:
  "prune ''2026-10-04'' [''2026-11-01'' \<mapsto> hs] = [''2026-11-01'' \<mapsto> hs]"
  by (auto simp: prune_def fun_eq_iff)

lemma update_1:
  "updateStateHashes ''2026-10-04'' nowISO ((createDefaultState nowISO) \<lparr> fileOffsets := Some offsets_a \<rparr>) [entry_1]
     = Inr \<lparr> version = Some (VStr ''4.0.0''), lastCleanup = Some nowISO, lastRunTimestamp = Some 0,
             recentHashes = Some [''2026-11-01'' \<mapsto> [''sha256:2026-11-01T10:00:00Zm1'']],
             fileOffsets = Some offsets_a \<rparr>"
  by (simp add: updateStateHashes_def createDefaultState_def example_simps prune_1)
    (simp add: entry_1_def)

lemma send_one_fails:
  assumes "clk 0 - start < SEND_BUDGET_MS" "es \<noteq> []" "length es \<le> 200"
  shows "sendWithBudget True (\<lambda>k batch. False) clk start es = Inr (0, es, [(es, False)])"
  using assms
  by (simp add: sendWithBudget_def sendLoop.simps sendRequest_def BATCH_SIZE_def slice_def)


lemma locked_1:
  "main_locked env_down config_ok (createDefaultState ''2026-11-03T08:00:00.000Z'')
      (disk_empty \<lparr> LOCK_FILE := LockFile (Some 1793692800002) \<rparr>) \<lparr> acquired = True \<rparr>
    = (None, disk_1 \<lparr> LOCK_FILE := LockFile (Some 1793692800002) \<rparr>, \<lparr> acquired = True \<rparr>,
       [([entry_1], False)])"
  unfolding main_locked_def
  by (simp add: collect_1 update_1 send_one_fails env_down_fields config_ok_fields SEND_BUDGET_MS_def
      Let_def disk_empty_def disk_1_def state_1_def loadBuffer_def clearBuffer_def atomicWriteJson_def)

lemma run_1: "main env_down disk_empty = (Resolved, disk_1, [([entry_1], False)], None)"
proof -
  have "main_try env_down disk_empty \<lparr> acquired = False \<rparr>
      = main_locked env_down config_ok (loadState (now_iso env_down) (STATE_FILE disk_empty))
          (disk_empty \<lparr> LOCK_FILE := LockFile (Some 1793692800002) \<rparr>) \<lparr> acquired = True \<rparr>"
    by (rule main_try_locked [where t = 0])
      (simp_all add: env_down_fields config_ok_fields acquire_free disk_empty_def loadState_def
        createDefaultState_def THROTTLE_INTERVAL_def)
  also have "loadState (now_iso env_down) (STATE_FILE disk_empty)
      = createDefaultState ''2026-11-03T08:00:00.000Z''"
    by (simp add: env_down_fields disk_empty_def loadState_def)
  finally have "main_try env_down disk_empty \<lparr> acquired = False \<rparr>
      = (None, disk_1 \<lparr> LOCK_FILE := LockFile (Some 1793692800002) \<rparr>, \<lparr> acquired = True \<rparr>,
         [([entry_1], False)])"
    by (simp only: locked_1)
  from main_from_try [OF this] show ?thesis
    by (simp add: release_held disk_1_def)
qed


lemma load_v4: "version s = Some (VStr ''4.0.0'') \<Longrightarrow> loadState nowISO (StateFile s) = s"
  by (simp add: loadState_def version_missing_def major_text_def parseInt_def is_space_def
      is_digit_def digits_value_def Let_def)

lemma read_a_same:
  "readFileIncremental rt0 path_a file_a offsets_a hs = ([], offsets_a, None)"
  by (simp add: readFileIncremental_def file_a_def offsets_a_def)

lemma gc_a: "(\<lambda>trackedFile. if trackedFile = path_a then offsets_a trackedFile else None) = offsets_a"
  by (auto simp: offsets_a_def)

lemma collect_same:
  "fileOffsets state = Some offsets_a \<Longrightarrow>
   collectNewUsageDataIncremental rt0 [[(path_a, file_a)]] state = ([], state)"
  by (simp add: collectNewUsageDataIncremental_def read_a_same gc_a)

lemma env_bad_url_fields:
  "js_runtime env_bad_url = rt0"
  "url_parses env_bad_url = (\<lambda>u. u = ''http://localhost:3000'')"
  "config_json env_bad_url = ConfigFile (config_ok \<lparr> serverUrl := ''example.com'' \<rparr>)"
  "now env_bad_url = 1793692860000"
  "now_iso env_bad_url = ''2026-11-03T08:01:00.000Z''"
  "cutoff_key env_bad_url = ''2026-10-04''"
  "lock_clock env_bad_url = \<lparr> lock_start = 1793692800002, sleep_lag = (\<lambda>i. 0), open_error = (\<lambda>i. False) \<rparr>"
  "claudePaths env_bad_url = [[(path_a, file_a)]]"
  "unlink_buffer_ok env_bad_url"
  "network env_bad_url = (\<lambda>k batch. True)"
  "send_start env_bad_url = 1793692800010"
  "send_clock env_bad_url = (\<lambda>k. 1793692800010 + 40 * int k)"
  "write_buffer_ok env_bad_url"
  "write_state_ok env_bad_url"
  by (simp_all add: env_bad_url_def env_up_def env_down_def)

lemma disk_1_fields:
  "STATE_FILE disk_1 = StateFile state_1" "BUFFER_FILE disk_1 = BufferFile [entry_1]"
  "LOCK_FILE disk_1 = NoLockFile"
  by (simp_all add: disk_1_def)

lemma state_1_fields:
  "version state_1 = Some (VStr ''4.0.0'')" "lastRunTimestamp state_1 = Some 1793692800000"
  "fileOffsets state_1 = Some offsets_a"
  "recentHashes state_1 = Some [''2026-11-01'' \<mapsto> [''sha256:2026-11-01T10:00:00Zm1'']]"
  by (simp_all add: state_1_def)



lemma send_bad_url:
  assumes "clk 0 - start < SEND_BUDGET_MS" "es \<noteq> []"
  shows "sendWithBudget False resp clk start es = Inl TypeError"
  using assms
  by (simp add: sendWithBudget_def sendLoop.simps sendRequest_def BATCH_SIZE_def)

lemma locked_3:
  "main_locked env_bad_url (config_ok \<lparr> serverUrl := ''example.com'' \<rparr>) state_1
      (disk_1 \<lparr> LOCK_FILE := LockFile (Some 1793692800002) \<rparr>) \<lparr> acquired = True \<rparr>
    = (Some TypeError,
       \<lparr> STATE_FILE = StateFile state_1, BUFFER_FILE = NoBufferFile,
         LOCK_FILE = LockFile (Some 1793692800002) \<rparr>,
       \<lparr> acquired = True \<rparr>, [])"
  unfolding main_locked_def
  by (simp add: collect_same state_1_fields send_bad_url env_bad_url_fields config_ok_fields
      SEND_BUDGET_MS_def Let_def disk_1_def loadBuffer_def clearBuffer_def atomicWriteJson_def)

lemma run_3:
  "main env_bad_url disk_1
     = (Resolved,
        \<lparr> STATE_FILE = StateFile state_1, BUFFER_FILE = NoBufferFile, LOCK_FILE = NoLockFile \<rparr>,
        [], Some TypeError)"
proof -
  have "main_try env_bad_url disk_1 \<lparr> acquired = False \<rparr>
      = main_locked env_bad_url (config_ok \<lparr> serverUrl := ''example.com'' \<rparr>)
          (loadState (now_iso env_bad_url) (STATE_FILE disk_1))
          (disk_1 \<lparr> LOCK_FILE := LockFile (Some 1793692800002) \<rparr>) \<lparr> acquired = True \<rparr>"
    by (rule main_try_locked [where t = 1793692800000])
      (simp_all add: env_bad_url_fields config_ok_fields acquire_free disk_1_fields load_v4
        state_1_fields THROTTLE_INTERVAL_def)
  also have "loadState (now_iso env_bad_url) (STATE_FILE disk_1) = state_1"
    by (simp add: disk_1_fields load_v4 state_1_fields)
  finally have "main_try env_bad_url disk_1 \<lparr> acquired = False \<rparr>
      = (Some TypeError,
       \<lparr> STATE_FILE = StateFile state_1, BUFFER_FILE = NoBufferFile,
         LOCK_FILE = LockFile (Some 1793692800002) \<rparr>,
       \<lparr> acquired = True \<rparr>, [])"
    by (simp only: locked_3)
  from main_from_try [OF this] show ?thesis
    by (simp add: release_held)
qed

subsection \<open>Dedup index and delivery\<close>










subsection \<open>Retention and duplicates within a run\<close>




lemma index_lastRun [simp]:
  "index_of_state (state \<lparr> lastRunTimestamp := t \<rparr>) = index_of_state state"
  by (simp add: index_of_state_def)





subsection \<open>The claims on the example runs\<close>






























text \<open>
  Claim C1 does not hold of the code. A first run, with the server down, leaves one
  record in the Pending Buffer. In the next run the configured server URL does not parse:
  the buffer is loaded and cleared, \<^verbatim>\<open>sendWithBudget\<close> throws, the \<^verbatim>\<open>catch\<close> block
  only logs. Afterwards no request has delivered the record, the Pending Buffer file is
  gone, and no later run collects the record again (the file offset is at the end of the
  log file).
\<close>

theorem buffer_lost_when_send_throws:
  "main env_down disk_empty = (Resolved, disk_1, [([entry_1], False)], None) \<and>
   pending (BUFFER_FILE disk_1) = [entry_1] \<and>
   delivered [([entry_1], False)] = [] \<and>
   main env_bad_url disk_1
     = (Resolved,
        \<lparr> STATE_FILE = StateFile state_1, BUFFER_FILE = NoBufferFile, LOCK_FILE = NoLockFile \<rparr>,
        [], Some TypeError) \<and>
   pending NoBufferFile = [] \<and>
   fst (collectNewUsageDataIncremental rt0 [[(path_a, file_a)]] state_1) = []"
proof -
  have "pending (BUFFER_FILE disk_1) = [entry_1]"
    by (simp add: pending_def loadBuffer_def disk_1_fields)
  moreover have "delivered [([entry_1], False)] = []"
    by (simp add: delivered_def)
  moreover have "pending NoBufferFile = []"
    by (simp add: pending_def loadBuffer_def)
  moreover have "fst (collectNewUsageDataIncremental rt0 [[(path_a, file_a)]] state_1) = []"
    by (simp add: collect_same state_1_fields)
  ultimately show ?thesis
    using run_1 run_3 by (intro conjI)
qed

end
